theory Spec2Isabelle
  imports Complex_Main "HOL-Library.Multiset" "HOL-Library.Word"
begin

section \<open>The TradeRecorder analyzer of backtrader/analyzers/traderecorder.py\<close>

text \<open>
  The analyzer keeps a dictionary of Trade objects keyed by \<open>tradeid\<close>
  (\<open>notify_trade\<close>) and, in \<open>stop\<close>, turns it into three pandas frames held in
  \<open>self.rets\<close>: \<open>openTrades\<close>, \<open>closedTrades\<close> and \<open>equityCurve\<close>.

  Modelling decisions.
  \<^item> A float64 value (prices, pnl) is a value of the type parameter \<open>'v\<close>, and float64
    addition is a parameter \<open>add\<close> of \<open>stop\<close> of which nothing is assumed: it need be
    neither associative nor commutative, and \<open>'v\<close> may hold \<open>inf\<close> and \<open>nan\<close>. The
    concrete runs take the reals, on values that float64 adds exactly.
  \<^item> Datetimes are integers (any linear order would do). A \<open>tradeid\<close> is an integer of
    the int64 range, the range in which the \<open>tradeid\<close> column of the frames holds it
    exactly.
  \<^item> A method returns \<open>(e, s)\<close>: \<open>e = None\<close> when it returns normally, \<open>Some err\<close> when
    the exception \<open>err\<close> leaves it; \<open>s\<close> is the object as the call left it.
  \<^item> The Trade class is not part of these sources. A trade carries the attributes that
    \<open>stop\<close> reads; \<open>exit_price\<close>, \<open>close_datetime\<close> and \<open>R\<close> may be absent
    (\<open>None\<close>: reading the attribute raises AttributeError, \<open>hasattr\<close> is false).
  \<^item> A value held in \<open>self.rets\<close> is a Python list of one-row frames (\<open>PyList\<close>), one
    concatenated frame (\<open>DataFrame\<close>) or \<open>None\<close> (\<open>PyNone\<close>).
  \<^item> \<open>DataFrame.sort_values\<close> is library code called with its default \<open>kind\<close>; it is a
    parameter \<open>srt\<close> of \<open>stop\<close>, of which the theorems assume \<open>sort_values_ok\<close> only:
    the result is its argument reordered with dates ascending. Nothing is assumed of the
    order of rows with equal dates.
  \<^item> \<open>calc_equity\<close> and \<open>_cumulativeEquity\<close> are left out: the only call of
    \<open>calc_equity\<close> (lines 188-190) is commented out.
\<close>

subsection \<open>Data\<close>

datatype py_error = Exception | AttributeError | TypeError | ValueError

datatype 'a frames = PyList "'a list" | DataFrame "'a list" | PyNone

type_synonym datetime = int

type_synonym trade_id = "64 word"

record 'v trade =
  tradeid :: trade_id
  isopen :: bool
  long :: bool
  entry_price :: 'v
  open_datetime :: datetime
  pnl :: 'v
  pnlcomm :: 'v
  trade_R :: "'v option"
  close_datetime :: "datetime option"
  exit_price :: "'v option"

text \<open>The row built at lines 159-176; \<open>R_stop\<close> is present when the trade has \<open>R\<close>.\<close>

record 'v trade_row =
  col_entry_price :: 'v
  col_entry_date :: datetime
  col_pnl :: 'v
  col_pnlcomm :: 'v
  col_is_long :: bool
  col_R_stop :: "'v option"
  col_tradeid :: trade_id

text \<open>A closed row is the same row with the two exit columns of lines 198-199.\<close>

record 'v closed_row =
  base :: "'v trade_row"
  col_exit_date :: datetime
  col_exit_price :: 'v

type_synonym 'v equity_row = "datetime \<times> 'v"

type_synonym 'v sorter = "'v equity_row list \<Rightarrow> 'v equity_row list"

record 'v recorder =
  mode :: string
  openTrades :: "'v trade_row frames"
  closedTrades :: "'v closed_row frames"
  equityCurve :: "'v equity_row frames"
  tradeDict :: "(trade_id \<times> 'v trade) list option"
  printed :: "string list"

subsection \<open>create\_analysis and notify\_trade\<close>

definition create_analysis :: "string \<Rightarrow> py_error option \<times> 'v recorder" where
  "create_analysis m =
     (let s = \<lparr>mode = m, openTrades = PyList [], closedTrades = PyList [],
                equityCurve = PyList [], tradeDict = Some [], printed = []\<rparr>
      in if m \<notin> set [''trades'', ''equity'', ''trades+equity'']
         then (Some Exception, s) else (None, s))"

text \<open>
  \<open>d[k] = v\<close> on a Python dict: an existing key keeps its place in the iteration order
  and has its value replaced, a new key goes to the end.
\<close>

fun dict_set :: "('k \<times> 'v) list \<Rightarrow> 'k \<Rightarrow> 'v \<Rightarrow> ('k \<times> 'v) list" where
  "dict_set [] k v = [(k, v)]"
| "dict_set ((k', v') # d) k v =
     (if k' = k then (k, v) # d else (k', v') # dict_set d k v)"

text \<open>Line 142. After \<open>stop\<close> the dictionary is \<open>None\<close> and the item assignment raises
  TypeError.\<close>

definition notify_trade :: "'v recorder \<Rightarrow> 'v trade \<Rightarrow> py_error option \<times> 'v recorder" where
  "notify_trade s t =
     (case tradeDict s of
        None \<Rightarrow> (Some TypeError, s)
      | Some d \<Rightarrow> (None, s\<lparr>tradeDict := Some (dict_set d (tradeid t) t)\<rparr>))"

text \<open>A run of notifications; it ends at the first one that raises.\<close>

fun notify_all :: "'v recorder \<Rightarrow> 'v trade list \<Rightarrow> py_error option \<times> 'v recorder" where
  "notify_all s [] = (None, s)"
| "notify_all s (t # ts) =
     (case notify_trade s t of
        (Some e, s') \<Rightarrow> (Some e, s')
      | (None, s') \<Rightarrow> notify_all s' ts)"

subsection \<open>stop\<close>

definition mk_row :: "'v trade \<Rightarrow> 'v trade_row" where
  "mk_row t = \<lparr>col_entry_price = entry_price t, col_entry_date = open_datetime t,
               col_pnl = pnl t, col_pnlcomm = pnlcomm t, col_is_long = long t,
               col_R_stop = trade_R t, col_tradeid = tradeid t\<rparr>"

text \<open>\<open>.append\<close>: a list grows; \<open>None\<close> has no such attribute, and neither has a
  DataFrame (pandas 2).\<close>

fun append_frame :: "'a frames \<Rightarrow> 'a \<Rightarrow> py_error + 'a frames" where
  "append_frame (PyList xs) x = Inr (PyList (xs @ [x]))"
| "append_frame (DataFrame xs) x = Inl AttributeError"
| "append_frame PyNone x = Inl AttributeError"

definition missing_msg :: string where
  "missing_msg = ''The Trade object received by this TradeRecorder Analyzer is missing extra attributes''"

text \<open>The body of the loop of lines 147-210 for one trade. The first test reads
  \<open>'trade'\<close>, as line 179 does.\<close>

definition stop_trade :: "'v recorder \<Rightarrow> 'v trade \<Rightarrow> py_error option \<times> 'v recorder" where
  "stop_trade s t =
     (if isopen t \<and> mode s \<in> set [''trade'', ''trades+equity''] then
        (case append_frame (openTrades s) (mk_row t) of
           Inl e \<Rightarrow> (Some e, s)
         | Inr f \<Rightarrow> (None, s\<lparr>openTrades := f\<rparr>))
      else if mode s \<in> set [''trades'', ''trades+equity''] then
        (case (close_datetime t, exit_price t) of
           (Some d, Some p) \<Rightarrow>
             (case append_frame (closedTrades s)
                     \<lparr>base = mk_row t, col_exit_date = d, col_exit_price = p\<rparr> of
                Inl e \<Rightarrow> (Some e, s)
              | Inr f \<Rightarrow> (None, s\<lparr>closedTrades := f\<rparr>))
         | _ \<Rightarrow> (Some AttributeError, s\<lparr>printed := printed s @ [missing_msg]\<rparr>))
      else (None, s))"

fun stop_loop :: "'v recorder \<Rightarrow> 'v trade list \<Rightarrow> py_error option \<times> 'v recorder" where
  "stop_loop s [] = (None, s)"
| "stop_loop s (t # ts) =
     (case stop_trade s t of
        (Some e, s') \<Rightarrow> (Some e, s')
      | (None, s') \<Rightarrow> stop_loop s' ts)"

text \<open>\<open>pd.concat(xs).reset_index(drop=True) if xs != [] else None\<close>. \<open>pd.concat(None)\<close>
  raises TypeError; comparing a frame with \<open>[]\<close> raises ValueError. The rows keep
  their values: every \<open>tradeid\<close> column is int64, so the concatenated one is too.\<close>

fun concat_frames :: "'a frames \<Rightarrow> py_error + 'a frames" where
  "concat_frames (PyList xs) = Inr (if xs \<noteq> [] then DataFrame xs else PyNone)"
| "concat_frames (DataFrame xs) = Inl ValueError"
| "concat_frames PyNone = Inl TypeError"

text \<open>Lines 215-222.\<close>

definition stop_concat :: "'v recorder \<Rightarrow> py_error option \<times> 'v recorder" where
  "stop_concat s =
     (if mode s \<in> set [''trades'', ''trades+equity''] then
        (case concat_frames (closedTrades s) of
           Inl e \<Rightarrow> (Some e, s)
         | Inr c \<Rightarrow>
             (case concat_frames (openTrades s) of
                Inl e \<Rightarrow> (Some e, s\<lparr>closedTrades := c\<rparr>)
              | Inr f \<Rightarrow> (None, s\<lparr>closedTrades := c, openTrades := f\<rparr>)))
      else (None, s\<lparr>closedTrades := PyNone, openTrades := PyNone\<rparr>))"

text \<open>\<open>cumsum\<close>: the running totals of a column. The first total is the first
  value itself; each further one is the float64 sum of the total before and the next
  value, in row order.\<close>

fun cumsum_from :: "('v \<Rightarrow> 'v \<Rightarrow> 'v) \<Rightarrow> 'v \<Rightarrow> 'v list \<Rightarrow> 'v list" where
  "cumsum_from add acc [] = []"
| "cumsum_from add acc (x # xs) = add acc x # cumsum_from add (add acc x) xs"

fun cumsum :: "('v \<Rightarrow> 'v \<Rightarrow> 'v) \<Rightarrow> 'v list \<Rightarrow> 'v list" where
  "cumsum add [] = []"
| "cumsum add (x # xs) = x # cumsum_from add x xs"

text \<open>Lines 234-238 on the rows of \<open>closedTrades\<close>: the two columns, sorted on the
  date, the second one replaced by its running totals.\<close>

definition equity_columns :: "'v closed_row list \<Rightarrow> 'v equity_row list" where
  "equity_columns rows = map (\<lambda>r. (col_exit_date r, col_pnlcomm (base r))) rows"

definition equity_frame ::
  "'v sorter \<Rightarrow> ('v \<Rightarrow> 'v \<Rightarrow> 'v) \<Rightarrow> 'v closed_row list \<Rightarrow> 'v equity_row list" where
  "equity_frame srt add rows =
     (let df = srt (equity_columns rows)
      in zip (map fst df) (cumsum add (map snd df)))"

text \<open>Lines 233-241. Subscripting \<open>None\<close> (or a list) with a list of column names raises
  TypeError.\<close>

definition stop_equity ::
  "'v sorter \<Rightarrow> ('v \<Rightarrow> 'v \<Rightarrow> 'v) \<Rightarrow> 'v recorder \<Rightarrow> py_error option \<times> 'v recorder" where
  "stop_equity srt add s =
     (if mode s \<in> set [''equity'', ''trades+equity''] then
        (case closedTrades s of
           DataFrame rows \<Rightarrow>
             (None, s\<lparr>equityCurve := DataFrame (equity_frame srt add rows)\<rparr>)
         | PyList rows \<Rightarrow> (Some TypeError, s)
         | PyNone \<Rightarrow> (Some TypeError, s))
      else (None, s\<lparr>equityCurve := PyNone\<rparr>))"

text \<open>The whole method. Iterating over \<open>None\<close> (line 147, after an earlier \<open>stop\<close>) raises
  TypeError. \<open>rets._close()\<close> changes none of the three results.\<close>

definition stop ::
  "'v sorter \<Rightarrow> ('v \<Rightarrow> 'v \<Rightarrow> 'v) \<Rightarrow> 'v recorder \<Rightarrow> py_error option \<times> 'v recorder" where
  "stop srt add s =
     (case tradeDict s of
        None \<Rightarrow> (Some TypeError, s)
      | Some d \<Rightarrow>
          (case stop_loop s (map snd d) of
             (Some e, s1) \<Rightarrow> (Some e, s1)
           | (None, s1) \<Rightarrow>
               (case stop_concat s1 of
                  (Some e, s2) \<Rightarrow> (Some e, s2)
                | (None, s2) \<Rightarrow>
                    (case stop_equity srt add s2 of
                       (Some e, s3) \<Rightarrow> (Some e, s3)
                     | (None, s3) \<Rightarrow> (None, s3\<lparr>tradeDict := None\<rparr>)))))"

text \<open>A whole run: construct, deliver the notifications, stop.\<close>

definition run ::
  "'v sorter \<Rightarrow> ('v \<Rightarrow> 'v \<Rightarrow> 'v) \<Rightarrow> string \<Rightarrow> 'v trade list \<Rightarrow> py_error option \<times> 'v recorder"
  where
  "run srt add m ts =
     (case create_analysis m of
        (Some e, s) \<Rightarrow> (Some e, s)
      | (None, s) \<Rightarrow>
          (case notify_all s ts of
             (Some e, s') \<Rightarrow> (Some e, s')
           | (None, s') \<Rightarrow> stop srt add s'))"

subsection \<open>What the theorems say about the library sort\<close>

definition sort_values_ok :: "'v sorter \<Rightarrow> bool" where
  "sort_values_ok srt \<longleftrightarrow> (\<forall>xs. sorted (map fst (srt xs)) \<and> mset (srt xs) = mset xs)"

text \<open>The rows of a result, whatever its form.\<close>

fun rows_of :: "'a frames \<Rightarrow> 'a list" where
  "rows_of (PyList xs) = xs"
| "rows_of (DataFrame xs) = xs"
| "rows_of PyNone = []"

subsection \<open>Notions used in the statements\<close>

text \<open>The dictionary after a run of notifications, and the last notification of an id.\<close>

fun record_dict :: "(trade_id \<times> 'v trade) list \<Rightarrow> 'v trade list \<Rightarrow> (trade_id \<times> 'v trade) list" where
  "record_dict d [] = d"
| "record_dict d (t # ts) = record_dict (dict_set d (tradeid t) t) ts"


text \<open>The two tests of the loop, lines 179 and 193, and the branch they select.\<close>

definition open_branch :: "string \<Rightarrow> 'v trade \<Rightarrow> bool" where
  "open_branch m t \<longleftrightarrow> isopen t \<and> m \<in> set [''trade'', ''trades+equity'']"

definition closed_branch :: "string \<Rightarrow> 'v trade \<Rightarrow> bool" where
  "closed_branch m t \<longleftrightarrow> \<not> open_branch m t \<and> m \<in> set [''trades'', ''trades+equity'']"

text \<open>The trade has both attributes read at lines 198-199.\<close>

definition has_exit :: "'v trade \<Rightarrow> bool" where
  "has_exit t \<longleftrightarrow> close_datetime t \<noteq> None \<and> exit_price t \<noteq> None"

text \<open>The closed row of a trade that has them (the lemmas use it under \<open>has_exit\<close>
  only).\<close>

definition mk_closed :: "'v trade \<Rightarrow> 'v closed_row" where
  "mk_closed t = \<lparr>base = mk_row t, col_exit_date = the (close_datetime t),
                  col_exit_price = the (exit_price t)\<rparr>"

text \<open>The recorder that \<open>create_analysis\<close> and a run of notifications leave
  (lemma \<open>notify_all_dict\<close>), the trades it stores in the order of the dictionary, and
  the value of line 217 for a list.\<close>

definition ledger :: "string \<Rightarrow> 'v trade list \<Rightarrow> 'v recorder" where
  "ledger m ts = \<lparr>mode = m, openTrades = PyList [], closedTrades = PyList [],
                  equityCurve = PyList [], tradeDict = Some (record_dict [] ts), printed = []\<rparr>"

definition frame_of :: "'a list \<Rightarrow> 'a frames" where
  "frame_of xs = (if xs \<noteq> [] then DataFrame xs else PyNone)"

definition snapshots :: "'v trade list \<Rightarrow> 'v trade list" where
  "snapshots ts = map snd (record_dict [] ts)"

text \<open>Sample trades for the concrete runs: a closed trade with its exit data and an
  open one without exit attributes.\<close>

definition closed_trade :: "trade_id \<Rightarrow> datetime \<Rightarrow> real \<Rightarrow> real trade" where
  "closed_trade i d p = \<lparr>tradeid = i, isopen = False, long = True, entry_price = 100,
     open_datetime = 1, pnl = p, pnlcomm = p, trade_R = None,
     close_datetime = Some d, exit_price = Some 110\<rparr>"

definition open_trade :: "trade_id \<Rightarrow> real trade" where
  "open_trade i = \<lparr>tradeid = i, isopen = True, long = True, entry_price = 100,
     open_datetime = 1, pnl = 0, pnlcomm = 0, trade_R = None,
     close_datetime = None, exit_price = None\<rparr>"

section \<open>Properties of the dictionary and of the loop\<close>







lemma notify_all_dict:
  "tradeDict s = Some d \<Longrightarrow>
   notify_all s ts = (None, s\<lparr>tradeDict := Some (record_dict d ts)\<rparr>)"
proof (induction ts arbitrary: s d)
  case Nil
  then show ?case by simp
next
  case (Cons t ts)
  have "notify_trade s t = (None, s\<lparr>tradeDict := Some (dict_set d (tradeid t) t)\<rparr>)"
    using Cons.prems by (simp add: notify_trade_def)
  moreover have "notify_all (s\<lparr>tradeDict := Some (dict_set d (tradeid t) t)\<rparr>) ts
      = (None, s\<lparr>tradeDict := Some (record_dict (dict_set d (tradeid t) t) ts)\<rparr>)"
    using Cons.IH [of "s\<lparr>tradeDict := Some (dict_set d (tradeid t) t)\<rparr>"] by simp
  ultimately show ?case by simp
qed

lemma stop_trade_open:
  "openTrades s = PyList os \<Longrightarrow> open_branch (mode s) t \<Longrightarrow>
   stop_trade s t = (None, s\<lparr>openTrades := PyList (os @ [mk_row t])\<rparr>)"
  by (simp add: stop_trade_def open_branch_def)

lemma stop_trade_closed:
  "closedTrades s = PyList cs \<Longrightarrow> closed_branch (mode s) t \<Longrightarrow> has_exit t \<Longrightarrow>
   stop_trade s t = (None, s\<lparr>closedTrades := PyList (cs @ [mk_closed t])\<rparr>)"
  by (auto simp add: stop_trade_def open_branch_def closed_branch_def has_exit_def mk_closed_def)

lemma stop_trade_missing:
  "closed_branch (mode s) t \<Longrightarrow> \<not> has_exit t \<Longrightarrow>
   stop_trade s t = (Some AttributeError, s\<lparr>printed := printed s @ [missing_msg]\<rparr>)"
  by (auto simp add: stop_trade_def open_branch_def closed_branch_def has_exit_def split: option.splits)

lemma stop_trade_skip:
  "\<not> open_branch (mode s) t \<Longrightarrow> \<not> closed_branch (mode s) t \<Longrightarrow> stop_trade s t = (None, s)"
  by (auto simp add: stop_trade_def open_branch_def closed_branch_def)

lemma stop_loop_ok:
  "openTrades s = PyList os \<Longrightarrow> closedTrades s = PyList cs \<Longrightarrow>
   \<forall>t\<in>set ts. closed_branch (mode s) t \<longrightarrow> has_exit t \<Longrightarrow>
   stop_loop s ts =
     (None, s\<lparr>openTrades := PyList (os @ map mk_row (filter (open_branch (mode s)) ts)),
              closedTrades := PyList (cs @ map mk_closed (filter (closed_branch (mode s)) ts))\<rparr>)"
proof (induction ts arbitrary: s os cs)
  case Nil
  then show ?case by simp
next
  case (Cons t ts)
  consider (o) "open_branch (mode s) t" | (c) "closed_branch (mode s) t"
    | (n) "\<not> open_branch (mode s) t" "\<not> closed_branch (mode s) t" by blast
  then show ?case
  proof cases
    case o
    then have nc: "\<not> closed_branch (mode s) t" by (simp add: closed_branch_def)
    let ?s = "s\<lparr>openTrades := PyList (os @ [mk_row t])\<rparr>"
    have "stop_loop ?s ts = (None, ?s\<lparr>openTrades := PyList ((os @ [mk_row t]) @ map mk_row (filter (open_branch (mode ?s)) ts)),
              closedTrades := PyList (cs @ map mk_closed (filter (closed_branch (mode ?s)) ts))\<rparr>)"
      by (rule Cons.IH) (use Cons.prems in simp_all)
    then show ?thesis using o nc Cons.prems by (simp add: stop_trade_open)
  next
    case c
    then have no: "\<not> open_branch (mode s) t" by (simp add: closed_branch_def)
    have he: "has_exit t" using c Cons.prems by simp
    let ?s = "s\<lparr>closedTrades := PyList (cs @ [mk_closed t])\<rparr>"
    have "stop_loop ?s ts = (None, ?s\<lparr>openTrades := PyList (os @ map mk_row (filter (open_branch (mode ?s)) ts)),
              closedTrades := PyList ((cs @ [mk_closed t]) @ map mk_closed (filter (closed_branch (mode ?s)) ts))\<rparr>)"
      by (rule Cons.IH) (use Cons.prems in simp_all)
    then show ?thesis using c no he Cons.prems by (simp add: stop_trade_closed)
  next
    case n
    have "stop_loop s ts = (None, s\<lparr>openTrades := PyList (os @ map mk_row (filter (open_branch (mode s)) ts)),
              closedTrades := PyList (cs @ map mk_closed (filter (closed_branch (mode s)) ts))\<rparr>)"
      by (rule Cons.IH) (use Cons.prems in simp_all)
    then show ?thesis using n by (simp add: stop_trade_skip)
  qed
qed

lemma stop_loop_missing:
  "openTrades s = PyList os \<Longrightarrow> closedTrades s = PyList cs \<Longrightarrow>
   \<exists>t\<in>set ts. closed_branch (mode s) t \<and> \<not> has_exit t \<Longrightarrow>
   fst (stop_loop s ts) = Some AttributeError \<and>
   printed (snd (stop_loop s ts)) = printed s @ [missing_msg] \<and>
   tradeDict (snd (stop_loop s ts)) = tradeDict s \<and>
   equityCurve (snd (stop_loop s ts)) = equityCurve s"
proof (induction ts arbitrary: s os cs)
  case Nil
  then show ?case by simp
next
  case (Cons t ts)
  consider (o) "open_branch (mode s) t" | (c) "closed_branch (mode s) t" "has_exit t"
    | (m) "closed_branch (mode s) t" "\<not> has_exit t"
    | (n) "\<not> open_branch (mode s) t" "\<not> closed_branch (mode s) t" by blast
  then show ?case
  proof cases
    case o
    then have nc: "\<not> closed_branch (mode s) t" by (simp add: closed_branch_def)
    let ?s = "s\<lparr>openTrades := PyList (os @ [mk_row t])\<rparr>"
    have "fst (stop_loop ?s ts) = Some AttributeError \<and>
      printed (snd (stop_loop ?s ts)) = printed ?s @ [missing_msg] \<and>
      tradeDict (snd (stop_loop ?s ts)) = tradeDict ?s \<and>
      equityCurve (snd (stop_loop ?s ts)) = equityCurve ?s"
      by (rule Cons.IH [of _ "os @ [mk_row t]" cs]) (use Cons.prems nc in auto)
    then show ?thesis using o Cons.prems by (simp add: stop_trade_open)
  next
    case c
    then have no: "\<not> open_branch (mode s) t" by (simp add: closed_branch_def)
    let ?s = "s\<lparr>closedTrades := PyList (cs @ [mk_closed t])\<rparr>"
    have "fst (stop_loop ?s ts) = Some AttributeError \<and>
      printed (snd (stop_loop ?s ts)) = printed ?s @ [missing_msg] \<and>
      tradeDict (snd (stop_loop ?s ts)) = tradeDict ?s \<and>
      equityCurve (snd (stop_loop ?s ts)) = equityCurve ?s"
      by (rule Cons.IH [of _ os "cs @ [mk_closed t]"]) (use Cons.prems c in auto)
    then show ?thesis using c Cons.prems by (simp add: stop_trade_closed)
  next
    case m
    then show ?thesis by (simp add: stop_trade_missing)
  next
    case n
    have "fst (stop_loop s ts) = Some AttributeError \<and>
      printed (snd (stop_loop s ts)) = printed s @ [missing_msg] \<and>
      tradeDict (snd (stop_loop s ts)) = tradeDict s \<and>
      equityCurve (snd (stop_loop s ts)) = equityCurve s"
      by (rule Cons.IH [of _ os cs]) (use Cons.prems n in auto)
    then show ?thesis using n by (simp add: stop_trade_skip)
  qed
qed

lemma run_ledger:
  "m \<in> set [''trades'', ''equity'', ''trades+equity''] \<Longrightarrow> run srt add m ts = stop srt add (ledger m ts)"
  by (simp add: run_def create_analysis_def Let_def notify_all_dict ledger_def del: set_simps)


lemma branch_trades_equity [simp]:
  "open_branch ''trades+equity'' = isopen"
  "closed_branch ''trades+equity'' = (\<lambda>t. \<not> isopen t)"
  by (rule ext, simp add: open_branch_def closed_branch_def)+

lemma branch_trades [simp]:
  "open_branch ''trades'' = (\<lambda>t. False)"
  "closed_branch ''trades'' = (\<lambda>t. True)"
  by (rule ext, simp add: open_branch_def closed_branch_def)+

lemma branch_equity [simp]:
  "open_branch ''equity'' = (\<lambda>t. False)"
  "closed_branch ''equity'' = (\<lambda>t. False)"
  by (rule ext, simp add: open_branch_def closed_branch_def)+

lemma stop_loop_ledger:
  "\<forall>t\<in>set (snapshots ts). closed_branch m t \<longrightarrow> has_exit t \<Longrightarrow>
   stop_loop (ledger m ts) (snapshots ts) =
     (None, (ledger m ts)\<lparr>openTrades := PyList (map mk_row (filter (open_branch m) (snapshots ts))),
              closedTrades := PyList (map mk_closed (filter (closed_branch m) (snapshots ts)))\<rparr>)"
  using stop_loop_ok [of "ledger m ts" "[]" "[]" "snapshots ts"]
  by (simp add: ledger_def)

lemma stop_loop_ledger_missing:
  "\<exists>t\<in>set (snapshots ts). closed_branch m t \<and> \<not> has_exit t \<Longrightarrow>
   fst (stop_loop (ledger m ts) (snapshots ts)) = Some AttributeError \<and>
   printed (snd (stop_loop (ledger m ts) (snapshots ts))) = [missing_msg] \<and>
   equityCurve (snd (stop_loop (ledger m ts) (snapshots ts))) = PyList []"
  using stop_loop_missing [of "ledger m ts" "[]" "[]" "snapshots ts"]
  by (simp add: ledger_def)

lemma stop_ledger_unfold:
  "stop srt add (ledger m ts) =
     (case stop_loop (ledger m ts) (snapshots ts) of
             (Some e, s1) \<Rightarrow> (Some e, s1)
           | (None, s1) \<Rightarrow>
               (case stop_concat s1 of
                  (Some e, s2) \<Rightarrow> (Some e, s2)
                | (None, s2) \<Rightarrow>
                    (case stop_equity srt add s2 of
                       (Some e, s3) \<Rightarrow> (Some e, s3)
                     | (None, s3) \<Rightarrow> (None, s3\<lparr>tradeDict := None\<rparr>))))"
  by (simp add: stop_def ledger_def snapshots_def)

lemma stop_missing:
  assumes "\<exists>t\<in>set (snapshots ts). closed_branch m t \<and> \<not> has_exit t"
  shows "fst (stop srt add (ledger m ts)) = Some AttributeError \<and>
         printed (snd (stop srt add (ledger m ts))) = [missing_msg] \<and>
         equityCurve (snd (stop srt add (ledger m ts))) = PyList []"
proof -
  obtain e s1 where l: "stop_loop (ledger m ts) (snapshots ts) = (e, s1)" by fastforce
  with stop_loop_ledger_missing [OF assms]
  have "e = Some AttributeError" "printed s1 = [missing_msg]" "equityCurve s1 = PyList []" by simp_all
  then show ?thesis by (simp add: stop_ledger_unfold l)
qed

lemma stop_trades_equity_ok:
  assumes ex: "\<forall>t\<in>set (snapshots ts). \<not> isopen t \<longrightarrow> has_exit t"
    and ne: "filter (\<lambda>t. \<not> isopen t) (snapshots ts) \<noteq> []"
  shows "stop srt add (ledger ''trades+equity'' ts) =
     (None, \<lparr>mode = ''trades+equity'',
             openTrades = frame_of (map mk_row (filter isopen (snapshots ts))),
             closedTrades = DataFrame (map mk_closed (filter (\<lambda>t. \<not> isopen t) (snapshots ts))),
             equityCurve = DataFrame (equity_frame srt add
                 (map mk_closed (filter (\<lambda>t. \<not> isopen t) (snapshots ts)))),
             tradeDict = None, printed = []\<rparr>)"
proof -
  have "\<forall>t\<in>set (snapshots ts). closed_branch ''trades+equity'' t \<longrightarrow> has_exit t"
    using ex by simp
  from stop_loop_ledger [OF this] ne show ?thesis
    unfolding stop_ledger_unfold
    by (simp add: stop_concat_def stop_equity_def frame_of_def) (simp add: ledger_def)
qed



lemma stop_equity_mode:
  "stop srt add (ledger ''equity'' ts) =
     (Some TypeError, \<lparr>mode = ''equity'', openTrades = PyNone, closedTrades = PyNone,
             equityCurve = PyList [], tradeDict = Some (record_dict [] ts), printed = []\<rparr>)"
proof -
  have "\<forall>t\<in>set (snapshots ts). closed_branch ''equity'' t \<longrightarrow> has_exit t" by simp
  from stop_loop_ledger [OF this] show ?thesis
    unfolding stop_ledger_unfold
    by (simp add: stop_concat_def stop_equity_def frame_of_def) (simp add: ledger_def)
qed

lemma stop_none_tradeDict: "stop srt add s = (None, s') \<Longrightarrow> tradeDict s' = None"
  by (auto simp add: stop_def split: option.splits prod.splits)

text \<open>The definitions that evaluate a run on concrete notifications.\<close>

lemmas eval_simps = run_def create_analysis_def notify_trade_def stop_def stop_trade_def
  stop_concat_def stop_equity_def equity_frame_def equity_columns_def mk_row_def
  closed_trade_def open_trade_def ledger_def snapshots_def has_exit_def

lemma length_cumsum_from [simp]: "length (cumsum_from add a xs) = length xs"
  by (induction xs arbitrary: a) simp_all

lemma length_cumsum [simp]: "length (cumsum add xs) = length xs"
  by (cases xs) simp_all

lemma cumsum_from_nth:
  "k < length xs \<Longrightarrow> cumsum_from add a xs ! k = foldl add a (take (Suc k) xs)"
proof (induction xs arbitrary: a k)
  case Nil
  then show ?case by simp
next
  case (Cons x xs)
  show ?case
  proof (cases k)
    case 0
    then show ?thesis by simp
  next
    case (Suc j)
    with Cons.prems have "j < length xs" by simp
    from Cons.IH [OF this, of "add a x"] Suc show ?thesis by simp
  qed
qed

lemma cumsum_nth:
  "k < length xs \<Longrightarrow> cumsum add (x # xs) ! Suc k = foldl add x (take (Suc k) xs)"
  by (simp add: cumsum_from_nth)



lemma sort_values_ok_length: "sort_values_ok srt \<Longrightarrow> length (srt xs) = length xs"
  using mset_eq_length by (fastforce simp add: sort_values_ok_def)

lemma length_equity_frame:
  "sort_values_ok srt \<Longrightarrow> length (equity_frame srt add rows) = length rows"
  by (simp add: equity_frame_def Let_def sort_values_ok_length equity_columns_def)

lemma dates_equity_frame:
  "map fst (equity_frame srt add rows) = map fst (srt (equity_columns rows))"
  by (simp add: equity_frame_def Let_def)

lemma sorted_equity_frame:
  "sort_values_ok srt \<Longrightarrow> sorted (map fst (equity_frame srt add rows))"
  by (simp add: dates_equity_frame sort_values_ok_def)
















lemma rows_of_frame_of [simp]: "rows_of (frame_of xs) = xs"
  by (simp add: frame_of_def)



lemma pnlcomm_mk_closed: "col_pnlcomm (base (mk_closed t)) = pnlcomm t"
  by (simp add: mk_closed_def mk_row_def)


lemma equity_columns_closed:
  assumes "\<forall>t\<in>set xs. has_exit t"
  shows "map (\<lambda>q. (Some (fst q), snd q)) (equity_columns (map mk_closed xs)) =
         map (\<lambda>t. (close_datetime t, pnlcomm t)) xs"
  using assms
  by (induction xs) (auto simp add: equity_columns_def mk_closed_def mk_row_def has_exit_def)


lemma equity_curve_trades_equity:
  assumes ok: "sort_values_ok srt"
    and ex: "\<forall>t\<in>set (snapshots ts). \<not> isopen t \<longrightarrow> has_exit t"
    and ne: "filter (\<lambda>t. \<not> isopen t) (snapshots ts) \<noteq> []"
  shows "\<exists>s' c p ps. run srt add ''trades+equity'' ts = (None, s') \<and>
           equityCurve s' = DataFrame c \<and>
           length c = length (filter (\<lambda>t. \<not> isopen t) (snapshots ts)) \<and>
           sorted (map fst c) \<and> map fst c = map fst (p # ps) \<and>
           mset (map (\<lambda>q. (Some (fst q), snd q)) (p # ps)) =
             mset (map (\<lambda>t. (close_datetime t, pnlcomm t))
                    (filter (\<lambda>t. \<not> isopen t) (snapshots ts))) \<and>
           snd (c ! 0) = snd p \<and>
           (\<forall>k<length ps. snd (c ! Suc k) = foldl add (snd p) (map snd (take (Suc k) ps)))"
proof -
  let ?cl = "filter (\<lambda>t. \<not> isopen t) (snapshots ts)"
  let ?rows = "map mk_closed ?cl"
  let ?df = "srt (equity_columns ?rows)"
  let ?c = "equity_frame srt add ?rows"
  have r: "run srt add ''trades+equity'' ts = stop srt add (ledger ''trades+equity'' ts)"
    by (rule run_ledger) simp
  have len: "length ?c = length ?cl"
    using length_equity_frame [OF ok, of add ?rows] by simp
  have ldf: "length ?df = length ?cl"
    using ok by (simp add: sort_values_ok_length equity_columns_def)
  with ne obtain p ps where df: "?df = p # ps" by (cases ?df) auto
  have c: "?c = zip (map fst (p # ps)) (cumsum add (map snd (p # ps)))"
    by (simp add: equity_frame_def Let_def df)
  have c0: "snd (?c ! 0) = snd p" by (simp add: c)
  have ck: "\<forall>k<length ps. snd (?c ! Suc k) = foldl add (snd p) (map snd (take (Suc k) ps))"
    by (simp add: c cumsum_from_nth take_map)
  have dates: "map fst ?c = map fst (p # ps)" by (simp add: dates_equity_frame df)
  have hx: "\<forall>t\<in>set ?cl. has_exit t" using ex by simp
  have "mset ?df = mset (equity_columns ?rows)" using ok by (simp add: sort_values_ok_def)
  then have "mset (map (\<lambda>q. (Some (fst q), snd q)) ?df) =
        mset (map (\<lambda>q. (Some (fst q), snd q)) (equity_columns ?rows))" by simp
  then have ms: "mset (map (\<lambda>q. (Some (fst q), snd q)) (p # ps)) =
        mset (map (\<lambda>t. (close_datetime t, pnlcomm t)) ?cl)"
    by (simp only: df equity_columns_closed [OF hx])
  have "run srt add ''trades+equity'' ts = (None, snd (stop srt add (ledger ''trades+equity'' ts)))"
    and "equityCurve (snd (stop srt add (ledger ''trades+equity'' ts))) = DataFrame ?c"
    by (simp_all add: r stop_trades_equity_ok [OF ex ne])
  moreover have "sorted (map fst ?c)" by (rule sorted_equity_frame [OF ok])
  ultimately show ?thesis using len dates ms c0 ck by blast
qed

section \<open>Claims\<close>

text \<open>
  C8 (record after finalize). Once \<open>stop\<close> has returned normally the dictionary is
  \<open>None\<close>, so every later \<open>notify_trade\<close> raises (Python's TypeError is the
  invalid-state error of this code) and leaves the recorder, and with it the results in
  \<open>rets\<close>, exactly as \<open>stop\<close> left them.
\<close>

theorem notify_after_stop_raises:
  "stop srt add s = (None, s') \<Longrightarrow> notify_trade s' t = (Some TypeError, s')"
  by (simp add: notify_trade_def stop_none_tradeDict)

theorem notify_after_stop_raises_witness:
  "fst (run (sort_key fst) (+) ''trades+equity'' [closed_trade 1 5 10]) = None \<and>
   notify_trade (snd (run (sort_key fst) (+) ''trades+equity'' [closed_trade 1 5 10])) (open_trade 2)
     = (Some TypeError, snd (run (sort_key fst) (+) ''trades+equity'' [closed_trade 1 5 10]))"
proof -
  let ?s = "ledger ''trades+equity'' [closed_trade 1 5 10]"
  have r: "run (sort_key fst) (+) ''trades+equity'' [closed_trade 1 5 10] = stop (sort_key fst) (+) ?s"
    by (simp add: run_ledger)
  have f: "fst (stop (sort_key fst) (+) ?s) = None"
    by (simp add: eval_simps)
  then have h: "stop (sort_key fst) (+) ?s = (None, snd (stop (sort_key fst) (+) ?s))"
    by (metis prod.collapse)
  show ?thesis
    unfolding r using notify_after_stop_raises [OF h, of "open_trade 2"] f by simp
qed

text \<open>
  C9 (finalize twice). The claim is that a second \<open>stop\<close> returns the same results.
  It does not return: the first \<open>stop\<close> sets the dictionary to \<open>None\<close> and the
  loop of the second one raises TypeError on it. The counterexample is one closed trade
  in mode \<open>trades+equity\<close>. What holds: the second call raises TypeError and leaves the
  recorder, and so the results of the first call, unchanged.
\<close>

theorem second_stop_raises:
  "stop srt add s = (None, s') \<Longrightarrow> stop srt' add' s' = (Some TypeError, s')"
  by (simp add: stop_def [of srt' add' s'] stop_none_tradeDict)

theorem second_stop_raises_witness:
  "fst (run (sort_key fst) (+) ''trades'' [closed_trade 1 5 10]) = None \<and>
   stop (sort_key fst) (+) (snd (run (sort_key fst) (+) ''trades'' [closed_trade 1 5 10]))
     = (Some TypeError, snd (run (sort_key fst) (+) ''trades'' [closed_trade 1 5 10]))"
proof -
  let ?s = "ledger ''trades'' [closed_trade 1 5 10]"
  have r: "run (sort_key fst) (+) ''trades'' [closed_trade 1 5 10] = stop (sort_key fst) (+) ?s"
    by (simp add: run_ledger)
  have f: "fst (stop (sort_key fst) (+) ?s) = None"
    by (simp add: eval_simps)
  then have h: "stop (sort_key fst) (+) ?s = (None, snd (stop (sort_key fst) (+) ?s))"
    by (metis prod.collapse)
  show ?thesis
    unfolding r using second_stop_raises [OF h, of "sort_key fst" "(+)"] f by simp
qed

text \<open>The counterexample of C9: the first \<open>stop\<close> returns, the second one raises.\<close>

theorem second_stop_raises_counterexample:
  "fst (run (sort_key fst) (+) ''trades+equity'' [closed_trade 1 5 10]) = None \<and>
   fst (stop (sort_key fst) (+) (snd (run (sort_key fst) (+) ''trades+equity'' [closed_trade 1 5 10])))
     = Some TypeError"
  by (simp add: eval_simps)

text \<open>
  C3 (empty ledger). With no trade recorded, \<open>stop\<close> raises TypeError in the modes
  \<open>trades+equity\<close> (the default) and \<open>equity\<close>: \<open>closedTrades\<close> is \<open>None\<close>
  when line 234 subscripts it. Only mode \<open>trades\<close> returns, with three \<open>None\<close>
  results.
\<close>

theorem empty_ledger_raises:
  "fst (run srt add ''trades+equity'' []) = Some TypeError \<and>
   fst (run srt add ''equity'' []) = Some TypeError \<and>
   run srt add ''trades'' [] =
     (None, \<lparr>mode = ''trades'', openTrades = PyNone, closedTrades = PyNone,
             equityCurve = PyNone, tradeDict = None, printed = []\<rparr>)"
  by (simp add: eval_simps)

text \<open>
  C5 (mode equity). In mode \<open>equity\<close> line 222 sets \<open>closedTrades\<close> to \<open>None\<close>
  and line 234 subscripts it: \<open>stop\<close> raises TypeError for every run of notifications,
  the equity curve stays the empty list of \<open>create_analysis\<close> and the dictionary is not
  released.
\<close>

theorem equity_mode_raises:
  "run srt add ''equity'' ts =
     (Some TypeError, \<lparr>mode = ''equity'', openTrades = PyNone, closedTrades = PyNone,
        equityCurve = PyList [], tradeDict = Some (record_dict [] ts), printed = []\<rparr>)"
  by (simp add: run_ledger stop_equity_mode)

text \<open>
  C2 (equity derivation). Two runs where the claim promises a curve and \<open>stop\<close> raises
  TypeError instead: mode \<open>equity\<close> with two closed trades that carry their exit data
  (the claim: two points), and mode \<open>trades+equity\<close> with one open trade only
  (the claim: a curve of length zero). The lemma \<open>equity_curve_trades_equity\<close> below
  gives the curve in the case that works.
\<close>

theorem equity_curve_equity_mode_raises:
  "fst (run srt add ''equity'' [closed_trade 1 7 5, closed_trade 2 3 (- 2)]) = Some TypeError \<and>
   equityCurve (snd (run srt add ''equity'' [closed_trade 1 7 5, closed_trade 2 3 (- 2)])) = PyList [] \<and>
   fst (run srt add ''trades+equity'' [open_trade 1]) = Some TypeError \<and>
   equityCurve (snd (run srt add ''trades+equity'' [open_trade 1])) = PyList []"
  by (simp add: eval_simps)

text \<open>
  C4 (partition in mode trades). Line 179 tests the mode against \<open>'trade'\<close>, which no
  recorder can have, so in mode \<open>trades\<close> an open trade takes the branch of the closed
  ones: with exit attributes it becomes a row of \<open>closedTrades\<close> and \<open>openTrades\<close>
  is \<open>None\<close>; without them \<open>stop\<close> raises AttributeError.
\<close>

theorem trades_mode_open_goes_closed:
  "run srt add ''trades'' [(open_trade 1)\<lparr>close_datetime := Some 0, exit_price := Some 0\<rparr>] =
     (None, \<lparr>mode = ''trades'', openTrades = PyNone,
        closedTrades = DataFrame [\<lparr>base = mk_row (open_trade 1), col_exit_date = 0, col_exit_price = 0\<rparr>],
        equityCurve = PyNone, tradeDict = None, printed = []\<rparr>) \<and>
   fst (run srt add ''trades'' [open_trade 1]) = Some AttributeError"
  by (simp add: eval_simps)

text \<open>
  C6 (missing exit data). The exit attributes are read at lines 197-199 only, under the
  test of line 193 that the mode includes trades. In mode \<open>equity\<close> a closed trade
  without exit price is neither reported nor printed: the counterexample raises the
  TypeError of line 234 and prints nothing. What holds: in the modes \<open>trades\<close> and
  \<open>trades+equity\<close>, when a stored snapshot is closed and lacks its exit date or exit
  price, \<open>stop\<close> prints the message and raises AttributeError, and no equity curve is
  produced.
\<close>

theorem missing_exit_raises:
  assumes "m \<in> set [''trades'', ''trades+equity'']"
    and "t \<in> set (snapshots ts)" and "\<not> isopen t" and "\<not> has_exit t"
  shows "fst (run srt add m ts) = Some AttributeError \<and>
         printed (snd (run srt add m ts)) = [missing_msg] \<and>
         equityCurve (snd (run srt add m ts)) = PyList []"
proof -
  have "closed_branch m t"
    using assms(1,3) by (auto simp add: closed_branch_def open_branch_def)
  then have "\<exists>t\<in>set (snapshots ts). closed_branch m t \<and> \<not> has_exit t"
    using assms(2,4) by blast
  moreover have "run srt add m ts = stop srt add (ledger m ts)"
    by (rule run_ledger) (use assms(1) in auto)
  ultimately show ?thesis
    using stop_missing [of ts m srt] by simp
qed

theorem missing_exit_raises_witness:
  "fst (run (sort_key fst) (+) ''trades+equity''
          [closed_trade 1 5 10, (closed_trade 2 6 3)\<lparr>close_datetime := None\<rparr>]) = Some AttributeError \<and>
   printed (snd (run (sort_key fst) (+) ''trades+equity''
          [closed_trade 1 5 10, (closed_trade 2 6 3)\<lparr>close_datetime := None\<rparr>])) = [missing_msg]"
  using missing_exit_raises [of "''trades+equity''" "(closed_trade 2 6 3)\<lparr>close_datetime := None\<rparr>"
      "[closed_trade 1 5 10, (closed_trade 2 6 3)\<lparr>close_datetime := None\<rparr>]" "sort_key fst"]
  by (simp add: snapshots_def closed_trade_def has_exit_def)


text \<open>The counterexample of C6: mode \<open>equity\<close>, one closed trade without exit price.\<close>

theorem missing_exit_equity_mode_counterexample:
  "fst (run (sort_key fst) (+) ''equity'' [(closed_trade 1 5 10)\<lparr>exit_price := None\<rparr>]) = Some TypeError \<and>
   printed (snd (run (sort_key fst) (+) ''equity'' [(closed_trade 1 5 10)\<lparr>exit_price := None\<rparr>])) = []"
  by (simp add: eval_simps)






end
